theory Spec2Isabelle
  imports Complex_Main
begin

section \<open>The attendance verification engine of \<open>src/main.js\<close>\<close>

text \<open>
  The theory embeds the methods \<open>verifyAttendance\<close>, \<open>verifyGPSLocation\<close>,
  \<open>checkLocationConsistency\<close>, \<open>checkSpeedAnomaly\<close>, \<open>checkAltitudeAnomaly\<close>,
  \<open>calculateDistance\<close>, \<open>verifyAttendanceTime\<close>, \<open>verifyAttendancePattern\<close>,
  \<open>calculateStandardDeviation\<close>, \<open>manualVerification\<close>, \<open>getWorkStartTime\<close> and
  \<open>getWorkEndTime\<close> of the class \<open>EmployeeManagementSystem\<close>.

  Conventions of the embedding.
  \<^item> A JavaScript number is a \<open>real option\<close>: \<open>Some x\<close> is the double of value \<open>x\<close>,
    \<open>None\<close> is \<open>undefined\<close> or \<open>NaN\<close>. Every comparison with \<open>None\<close> is false, as for
    \<open>NaN\<close>; the infinities are not modelled.
  \<^item> The arithmetic of doubles rounds, and the results of \<open>Math.sin\<close>, \<open>Math.cos\<close>,
    \<open>Math.atan2\<close>, \<open>Math.pow\<close> and \<open>Math.sqrt\<close> are left to the engine by the language. The
    operations on numbers are therefore a parameter, the record \<open>engine\<close>; the statements
    hold for every engine, or say which exactness they need of it.
  \<^item> Minutes of the day and epoch milliseconds are integers of small magnitude, on which
    doubles are exact; they are \<open>int\<close>.
  \<^item> An \<open>async\<close> method, and a method that may throw, returns \<open>error + 'a\<close>: \<open>Inl\<close> is a
    thrown exception (a rejected promise), \<open>Inr\<close> the returned value.
  \<^item> The collaborators (\<open>this.gpsTracker\<close>, \<open>this.attendance\<close>, \<open>this.storage\<close>,
    \<open>this.modals\<close>, \<open>this.config\<close>, the clock) are the fields of the record \<open>env\<close>; one
    invocation reads each of them as a fixed value, the dialog as a function of the number of
    its displays.
  \<^item> The Persian reason texts of the source are constructors of a datatype.
\<close>

subsection \<open>Data model\<close>

datatype error = ProviderError | TypeError

type_synonym jsnum = "real option"

text \<open>The number arithmetic of the JavaScript engine: the operators \<open>+\<close>, \<open>-\<close>, \<open>*\<close>, \<open>/\<close>
  and the functions and the constant of \<open>Math\<close> that the source uses.\<close>

record engine =
  num_add :: "jsnum \<Rightarrow> jsnum \<Rightarrow> jsnum"
  num_sub :: "jsnum \<Rightarrow> jsnum \<Rightarrow> jsnum"
  num_mul :: "jsnum \<Rightarrow> jsnum \<Rightarrow> jsnum"
  num_div :: "jsnum \<Rightarrow> jsnum \<Rightarrow> jsnum"
  Math_abs :: "jsnum \<Rightarrow> jsnum"
  Math_sqrt :: "jsnum \<Rightarrow> jsnum"
  Math_sin :: "jsnum \<Rightarrow> jsnum"
  Math_cos :: "jsnum \<Rightarrow> jsnum"
  Math_atan2 :: "jsnum \<Rightarrow> jsnum \<Rightarrow> jsnum"
  Math_pow :: "jsnum \<Rightarrow> jsnum \<Rightarrow> jsnum"
  Math_PI :: jsnum

record location =
  latitude :: jsnum
  longitude :: jsnum
  accuracy :: jsnum
  altitude :: jsnum
  timestamp :: int

text \<open>The result object of a spoofing check: \<open>passed\<close>, an optional \<open>reason\<close> and the
  numeric evidence fields in the order the source lists them.\<close>

record check =
  passed :: bool
  reason :: "string option"
  evidence :: "(string \<times> jsnum) list"

text \<open>The local wall-clock reading of a \<open>Date\<close>: \<open>getHours()\<close> and \<open>getMinutes()\<close>.\<close>

record date =
  getHours :: int
  getMinutes :: int

text \<open>An attendance record of the history provider: its \<open>type\<close> and its \<open>timestamp\<close>
  (\<open>None\<close> when the field is missing or falsy, else the \<open>Date\<close> built from it).\<close>

record attendance =
  atype :: string
  atimestamp :: "date option"

datatype gps_reason = InvalidLocation | OutOfRange | LocationError

record gps_metadata =
  gm_accuracy :: jsnum
  gm_spoofingChecks :: "check list"
  gm_officeDistance :: jsnum

record gps_verification =
  g_verified :: bool
  g_reason :: "gps_reason option"
  g_location :: "location option"
  g_metadata :: "gps_metadata option"

datatype time_reason = NoReason | CheckInOutOfWindow | CheckOutInvalid

record time_metadata =
  tm_currentTime :: int
  tm_workStart :: int
  tm_workEnd :: int
  tm_type :: string

record time_verification =
  t_verified :: bool
  t_reason :: time_reason
  t_metadata :: time_metadata

datatype pattern_reason = NoHistory | NoCheckInHistory | PatternOk | PatternUnusual

record pattern_metadata =
  pm_avgCheckIn :: jsnum
  pm_currentTime :: int
  pm_timeDiff :: jsnum
  pm_stdDev :: jsnum
  pm_historyCount :: nat

record pattern_verification =
  p_verified :: bool
  p_reason :: pattern_reason
  p_metadata :: "pattern_metadata option"

datatype verification_method = gps | manual | manual_fallback

datatype level = high | low

record metadata =
  md_gps :: "gps_metadata option"
  md_time :: "time_metadata option"
  md_pattern :: "pattern_metadata option"
  verificationLevel :: "level option"

record verification =
  verified :: bool
  vmethod :: verification_method
  vlocation :: "location option"
  vtimestamp :: date
  vmetadata :: metadata

text \<open>The collaborators of one invocation. \<open>getCurrentLocation\<close> may throw, return
  \<open>null\<close> (\<open>Inr None\<close>) or return a sample; \<open>isInOfficeRange\<close> and \<open>getRecentLocations\<close>
  are the tracker's answers; \<open>settings_workStartTime\<close> is the stored \<open>HH:MM\<close> setting after
  \<open>split(':').map(Number)\<close>; \<open>currentUser\<close> is the id of \<open>this.currentUser\<close>; \<open>js\<close> is
  the arithmetic of the engine; \<open>modals_show n\<close> is what happens when the manual verification
  dialog is displayed for the \<open>n\<close>-th time (counting from 0) during the invocation:
  \<open>this.modals.show\<close> throws, or the user presses the verify button (\<open>True\<close>) or the cancel
  button (\<open>False\<close>).\<close>

record env =
  ANTI_SPOOFING :: bool
  getCurrentLocation :: "error + location option"
  isInOfficeRange :: "jsnum \<Rightarrow> jsnum \<Rightarrow> bool"
  getRecentLocations :: "location list"
  now :: date
  settings_workStartTime :: "(int \<times> int) option"
  settings_workEndTime :: "(int \<times> int) option"
  currentUser :: "nat option"
  getUserAttendance :: "nat \<Rightarrow> nat \<Rightarrow> error + attendance list"
  js :: engine
  modals_show :: "nat \<Rightarrow> error + bool"

subsection \<open>JavaScript numbers and truthiness\<close>

text \<open>A number is truthy unless it is \<open>undefined\<close>, \<open>NaN\<close> or \<open>0\<close>.\<close>

definition truthy :: "jsnum \<Rightarrow> bool" where
  "truthy x = (case x of None \<Rightarrow> False | Some r \<Rightarrow> r \<noteq> 0)"

definition js_le :: "jsnum \<Rightarrow> jsnum \<Rightarrow> bool" where
  "js_le x y = (case x of None \<Rightarrow> False | Some a \<Rightarrow> (case y of None \<Rightarrow> False | Some b \<Rightarrow> a \<le> b))"

definition js_less :: "jsnum \<Rightarrow> jsnum \<Rightarrow> bool" where
  "js_less x y = (case x of None \<Rightarrow> False | Some a \<Rightarrow> (case y of None \<Rightarrow> False | Some b \<Rightarrow> a < b))"

text \<open>\<open>numbers.reduce((a, b) => a + b, 0)\<close>.\<close>

definition reduce_add :: "engine \<Rightarrow> jsnum list \<Rightarrow> jsnum" where
  "reduce_add en numbers = foldl (num_add en) (Some 0) numbers"

subsection \<open>Distance and the three spoofing checks\<close>

definition calculateDistance :: "engine \<Rightarrow> jsnum \<Rightarrow> jsnum \<Rightarrow> jsnum \<Rightarrow> jsnum \<Rightarrow> jsnum" where
  "calculateDistance en lat1 lon1 lat2 lon2 =
     (let R = Some 6371000;
          phi1 = num_div en (num_mul en lat1 (Math_PI en)) (Some 180);
          phi2 = num_div en (num_mul en lat2 (Math_PI en)) (Some 180);
          dphi = num_div en (num_mul en (num_sub en lat2 lat1) (Math_PI en)) (Some 180);
          dlam = num_div en (num_mul en (num_sub en lon2 lon1) (Math_PI en)) (Some 180);
          a = num_add en
                (num_mul en (Math_sin en (num_div en dphi (Some 2)))
                            (Math_sin en (num_div en dphi (Some 2))))
                (num_mul en
                   (num_mul en
                      (num_mul en (Math_cos en phi1) (Math_cos en phi2))
                      (Math_sin en (num_div en dlam (Some 2))))
                   (Math_sin en (num_div en dlam (Some 2))));
          c = num_mul en (Some 2)
                (Math_atan2 en (Math_sqrt en a) (Math_sqrt en (num_sub en (Some 1) a)))
      in num_mul en R c)"

definition checkLocationConsistency :: "env \<Rightarrow> location \<Rightarrow> check" where
  "checkLocationConsistency e loc =
     (let recentLocations = getRecentLocations e in
      if length recentLocations > 0 then
        (let lastLocation = recentLocations ! (length recentLocations - 1);
             distance = calculateDistance (js e)
                          (latitude lastLocation) (longitude lastLocation)
                          (latitude loc) (longitude loc);
             timeDiff = num_div (js e)
                          (Some (real_of_int (timestamp loc - timestamp lastLocation)))
                          (Some 1000);
             maxSpeed = Some 50;
             possibleDistance = num_mul (js e) maxSpeed timeDiff
         in \<lparr>passed = js_le distance possibleDistance,
             reason = None,
             evidence = [(''distance'', distance), (''timeDiff'', timeDiff),
                         (''maxPossibleDistance'', possibleDistance)]\<rparr>)
      else \<lparr>passed = True, reason = Some ''No previous locations'', evidence = []\<rparr>)"

text \<open>The loop of \<open>checkSpeedAnomaly\<close> over consecutive pairs of recent locations.\<close>

fun speeds :: "engine \<Rightarrow> location list \<Rightarrow> jsnum list" where
  "speeds en (loc1 # loc2 # rest) =
     (let distance = calculateDistance en (latitude loc1) (longitude loc1)
                       (latitude loc2) (longitude loc2);
          timeDiff = num_div en (Some (real_of_int (timestamp loc2 - timestamp loc1))) (Some 1000)
      in (if js_less (Some 0) timeDiff then [num_div en distance timeDiff] else [])
         @ speeds en (loc2 # rest))"
| "speeds en _ = []"

definition checkSpeedAnomaly :: "env \<Rightarrow> location \<Rightarrow> check" where
  "checkSpeedAnomaly e loc =
     (let recentLocations = getRecentLocations e;
          insufficient = \<lparr>passed = True, reason = Some ''Insufficient data'', evidence = []\<rparr>
      in if length recentLocations \<ge> 2 then
           (let sp = speeds (js e) recentLocations in
            if length sp > 0 then
              (let avgSpeed = num_div (js e) (reduce_add (js e) sp) (Some (real (length sp)));
                   lastSpeed = sp ! (length sp - 1);
                   speedChange = Math_abs (js e) (num_sub (js e) lastSpeed avgSpeed)
               in \<lparr>passed = js_less speedChange (Some 20),
                   reason = None,
                   evidence = [(''avgSpeed'', avgSpeed), (''lastSpeed'', lastSpeed),
                               (''speedChange'', speedChange)]\<rparr>)
            else insufficient)
         else insufficient)"

definition checkAltitudeAnomaly :: "location \<Rightarrow> check" where
  "checkAltitudeAnomaly loc =
     (if truthy (altitude loc) then
        (let minAltitude = 800; maxAltitude = 2000 in
         \<lparr>passed = js_le (Some minAltitude) (altitude loc) \<and> js_le (altitude loc) (Some maxAltitude),
          reason = None,
          evidence = [(''altitude'', altitude loc), (''minAltitude'', Some minAltitude),
                      (''maxAltitude'', Some maxAltitude)]\<rparr>)
      else \<lparr>passed = True, reason = Some ''No altitude data'', evidence = []\<rparr>)"

subsection \<open>GPS verification\<close>

text \<open>The body of the \<open>try\<close> block of \<open>verifyGPSLocation\<close>. The \<open>location\<close> of the result
  copies latitude, longitude, accuracy and timestamp only; \<open>inRange.distance\<close> of a boolean
  is \<open>undefined\<close>.\<close>

definition verifyGPSLocation_try :: "env \<Rightarrow> error + gps_verification" where
  "verifyGPSLocation_try e =
     (case getCurrentLocation e of
        Inl err \<Rightarrow> Inl err
      | Inr location \<Rightarrow>
          (let invalid = \<lparr>g_verified = False, g_reason = Some InvalidLocation,
                          g_location = None, g_metadata = None\<rparr> in
           case location of
             None \<Rightarrow> Inr invalid
           | Some loc \<Rightarrow>
               if \<not> truthy (latitude loc) \<or> \<not> truthy (longitude loc) then Inr invalid
               else
                 (let inRange = isInOfficeRange e (latitude loc) (longitude loc) in
                  if \<not> inRange then
                    Inr \<lparr>g_verified = False, g_reason = Some OutOfRange,
                         g_location = None, g_metadata = None\<rparr>
                  else
                    (let spoofingChecks =
                           [checkLocationConsistency e loc,
                            checkSpeedAnomaly e loc,
                            checkAltitudeAnomaly loc];
                         allChecksPassed = list_all passed spoofingChecks
                     in Inr \<lparr>g_verified = allChecksPassed,
                             g_reason = None,
                             g_location = Some \<lparr>latitude = latitude loc,
                                                 longitude = longitude loc,
                                                 accuracy = accuracy loc,
                                                 altitude = None,
                                                 timestamp = timestamp loc\<rparr>,
                             g_metadata = Some \<lparr>gm_accuracy = accuracy loc,
                                                 gm_spoofingChecks = spoofingChecks,
                                                 gm_officeDistance = None\<rparr>\<rparr>))))"

text \<open>\<open>verifyGPSLocation\<close>: the \<open>catch\<close> turns every exception of the body into a result.\<close>

definition verifyGPSLocation :: "env \<Rightarrow> error + gps_verification" where
  "verifyGPSLocation e =
     (case verifyGPSLocation_try e of
        Inl err \<Rightarrow> Inr \<lparr>g_verified = False, g_reason = Some LocationError,
                        g_location = None, g_metadata = None\<rparr>
      | Inr r \<Rightarrow> Inr r)"

text \<open>Modelled from the spec: the great-circle distance of two points by the haversine
  formula with the earth radius 6,371,000 m, as a function on the real numbers, and
  \<open>Math.atan2\<close> on the real numbers.\<close>

definition atan2 :: "real \<Rightarrow> real \<Rightarrow> real" where
  "atan2 y x =
     (if 0 < x then arctan (y / x)
      else if x < 0 then (if 0 \<le> y then arctan (y / x) + pi else arctan (y / x) - pi)
      else if 0 < y then pi / 2
      else if y < 0 then - (pi / 2)
      else 0)"

definition great_circle_distance :: "real \<Rightarrow> real \<Rightarrow> real \<Rightarrow> real \<Rightarrow> real" where
  "great_circle_distance lat1 lon1 lat2 lon2 =
     (let R = 6371000;
          phi1 = lat1 * pi / 180;
          phi2 = lat2 * pi / 180;
          dphi = (lat2 - lat1) * pi / 180;
          dlam = (lon2 - lon1) * pi / 180;
          a = sin (dphi / 2) * sin (dphi / 2) +
              cos phi1 * cos phi2 * sin (dlam / 2) * sin (dlam / 2);
          c = 2 * atan2 (sqrt a) (sqrt (1 - a))
      in R * c)"

text \<open>Modelled from the spec: the method \<open>isInOfficeRange\<close> of the class \<open>GPSTracker\<close>
  (\<open>modules/gps/gps-tracker.js\<close>, not among the sources). The location is in range iff its
  great-circle distance to the configured office point is at most the configured maximal
  distance; a location without coordinates is not in range.\<close>

definition GPSTracker_isInOfficeRange :: "real \<times> real \<Rightarrow> real \<Rightarrow> jsnum \<Rightarrow> jsnum \<Rightarrow> bool" where
  "GPSTracker_isInOfficeRange officeLocation maxDistance lat lng =
     (case lat of
        None \<Rightarrow> False
      | Some la \<Rightarrow>
          (case lng of
             None \<Rightarrow> False
           | Some lo \<Rightarrow>
               great_circle_distance (fst officeLocation) (snd officeLocation) la lo
                 \<le> maxDistance))"

subsection \<open>Time window and pattern verification\<close>

definition getWorkStartTime :: "env \<Rightarrow> int" where
  "getWorkStartTime e =
     (case settings_workStartTime e of
        Some (hours, minutes) \<Rightarrow> hours * 60 + minutes
      | None \<Rightarrow> 8 * 60)"

definition getWorkEndTime :: "env \<Rightarrow> int" where
  "getWorkEndTime e =
     (case settings_workEndTime e of
        Some (hours, minutes) \<Rightarrow> hours * 60 + minutes
      | None \<Rightarrow> 17 * 60)"

definition minutesSinceMidnight :: "date \<Rightarrow> int" where
  "minutesSinceMidnight d = getHours d * 60 + getMinutes d"

definition verifyAttendanceTime :: "env \<Rightarrow> string \<Rightarrow> time_verification" where
  "verifyAttendanceTime e type =
     (let currentTime = minutesSinceMidnight (now e);
          workStart = getWorkStartTime e;
          workEnd = getWorkEndTime e;
          (verified, reason) =
            (if type = ''check_in'' then
               (let v = (\<bar>currentTime - workStart\<bar> \<le> 120)
                in (v, if v then NoReason else CheckInOutOfWindow))
             else if type = ''check_out'' then
               (let v = (currentTime \<ge> workStart \<and> currentTime \<le> workStart + 600)
                in (v, if v then NoReason else CheckOutInvalid))
             else (False, NoReason))
      in \<lparr>t_verified = verified,
          t_reason = reason,
          t_metadata = \<lparr>tm_currentTime = currentTime, tm_workStart = workStart,
                        tm_workEnd = workEnd, tm_type = type\<rparr>\<rparr>)"

definition calculateStandardDeviation :: "engine \<Rightarrow> jsnum list \<Rightarrow> jsnum" where
  "calculateStandardDeviation en numbers =
     (let avg = num_div en (reduce_add en numbers) (Some (real (length numbers)));
          squareDiffs = map (\<lambda>n. Math_pow en (num_sub en n avg) (Some 2)) numbers;
          avgSquareDiff = num_div en (reduce_add en squareDiffs) (Some (real (length squareDiffs)))
      in Math_sqrt en avgSquareDiff)"

text \<open>The \<open>filter\<close> and \<open>map\<close> of \<open>verifyAttendancePattern\<close>: the minute of the day of every
  record of type \<open>check_in\<close> that has a timestamp.\<close>

definition checkInTimes :: "attendance list \<Rightarrow> int list" where
  "checkInTimes userAttendance =
     List.map_filter
       (\<lambda>a. if atype a = ''check_in''
            then map_option minutesSinceMidnight (atimestamp a)
            else None)
       userAttendance"

text \<open>An integer minute of the day as a number.\<close>

definition num :: "int \<Rightarrow> jsnum" where
  "num i = Some (real_of_int i)"

definition verifyAttendancePattern :: "env \<Rightarrow> string \<Rightarrow> error + pattern_verification" where
  "verifyAttendancePattern e type =
     (case currentUser e of
        None \<Rightarrow> Inl TypeError
      | Some uid \<Rightarrow>
          (case getUserAttendance e uid 30 of
             Inl err \<Rightarrow> Inl err
           | Inr userAttendance \<Rightarrow>
               if length userAttendance = 0 then
                 Inr \<lparr>p_verified = True, p_reason = NoHistory, p_metadata = None\<rparr>
               else
                 (let times = checkInTimes userAttendance in
                  if length times = 0 then
                    Inr \<lparr>p_verified = True, p_reason = NoCheckInHistory, p_metadata = None\<rparr>
                  else
                    (let avgCheckIn = num_div (js e) (reduce_add (js e) (map num times))
                                        (Some (real (length times)));
                         stdDev = calculateStandardDeviation (js e) (map num times);
                         currentTime = minutesSinceMidnight (now e);
                         timeDiff = Math_abs (js e) (num_sub (js e) (num currentTime) avgCheckIn);
                         verified = js_le timeDiff (num_mul (js e) stdDev (Some 2))
                     in Inr \<lparr>p_verified = verified,
                             p_reason = (if verified then PatternOk else PatternUnusual),
                             p_metadata = Some \<lparr>pm_avgCheckIn = avgCheckIn,
                                                 pm_currentTime = currentTime,
                                                 pm_timeDiff = timeDiff,
                                                 pm_stdDev = stdDev,
                                                 pm_historyCount = length times\<rparr>\<rparr>))))"

subsection \<open>The composite verdict\<close>

text \<open>\<open>manualVerification\<close> displays the dialog inside a promise: the promise is rejected
  when \<open>this.modals.show\<close> throws, is resolved with \<open>true\<close> by \<open>onVerify\<close> and with \<open>false\<close>
  by \<open>onCancel\<close>. The first argument counts the displays made before in this invocation.\<close>

definition manualVerification :: "env \<Rightarrow> nat \<Rightarrow> string \<Rightarrow> error + bool" where
  "manualVerification e n type =
     (case modals_show e n of
        Inl err \<Rightarrow> Inl err
      | Inr onVerify \<Rightarrow> Inr onVerify)"

text \<open>The body of the \<open>try\<close> block of \<open>verifyAttendance\<close>. An exception leaves the block
  together with the \<open>verification\<close> object as mutated so far, which the \<open>catch\<close> goes on
  to update, and with the number of displays of the dialog made so far.\<close>

definition verifyAttendance_try ::
    "env \<Rightarrow> string \<Rightarrow> (error \<times> verification \<times> nat) + verification" where
  "verifyAttendance_try e type =
     (let v0 = \<lparr>verified = False, vmethod = manual, vlocation = None, vtimestamp = now e,
                vmetadata = \<lparr>md_gps = None, md_time = None, md_pattern = None,
                             verificationLevel = None\<rparr>\<rparr>
      in case (if ANTI_SPOOFING e then
                 (case verifyGPSLocation e of
                    Inl err \<Rightarrow> Inl (err, v0, 0)
                  | Inr gpsVerification \<Rightarrow>
                      if g_verified gpsVerification then
                        Inr (v0\<lparr>verified := True, vmethod := gps,
                                vlocation := g_location gpsVerification,
                                vmetadata := (vmetadata v0)\<lparr>md_gps := g_metadata gpsVerification\<rparr>\<rparr>)
                      else Inr v0)
               else Inr v0) of
           Inl x \<Rightarrow> Inl x
         | Inr v1 \<Rightarrow>
             (let timeVerification = verifyAttendanceTime e type;
                  v2 = (if t_verified timeVerification then
                          v1\<lparr>verified := verified v1 \<and> t_verified timeVerification,
                             vmetadata := (vmetadata v1)\<lparr>md_time := Some (t_metadata timeVerification)\<rparr>\<rparr>
                        else v1)
              in case verifyAttendancePattern e type of
                   Inl err \<Rightarrow> Inl (err, v2, 0)
                 | Inr patternVerification \<Rightarrow>
                     (let v3 = (if p_verified patternVerification then
                                  v2\<lparr>verified := verified v2 \<and> p_verified patternVerification,
                                     vmetadata := (vmetadata v2)\<lparr>md_pattern := p_metadata patternVerification\<rparr>\<rparr>
                                else v2)
                      in if verified v3 then
                           Inr (v3\<lparr>vmetadata := (vmetadata v3)\<lparr>verificationLevel := Some high\<rparr>\<rparr>)
                         else
                           (case manualVerification e 0 type of
                              Inl err \<Rightarrow> Inl (err, v3, 1)
                            | Inr answer \<Rightarrow>
                                Inr (v3\<lparr>verified := answer,
                                        vmethod := manual,
                                        vmetadata := (vmetadata v3)\<lparr>verificationLevel := Some low\<rparr>\<rparr>)))))"

text \<open>\<open>verifyAttendance\<close>: the \<open>catch\<close> displays the dialog again; an exception of this
  display is not caught and leaves the function.\<close>

definition verifyAttendance :: "env \<Rightarrow> string \<Rightarrow> error + verification" where
  "verifyAttendance e type =
     (case verifyAttendance_try e type of
        Inl (err, v, displays) \<Rightarrow>
          (case manualVerification e displays type of
             Inl err' \<Rightarrow> Inl err'
           | Inr answer \<Rightarrow> Inr (v\<lparr>verified := answer, vmethod := manual_fallback\<rparr>))
      | Inr v \<Rightarrow> Inr v)"

text \<open>The outcome of the manual confirmation of an invocation: the answer of the first
  display of the dialog, or of the second display when the first one failed.\<close>

definition manualOutcome :: "env \<Rightarrow> string \<Rightarrow> bool \<Rightarrow> bool" where
  "manualOutcome e type answer \<longleftrightarrow>
     manualVerification e 0 type = Inr answer \<or>
     (isl (manualVerification e 0 type) \<and> manualVerification e 1 type = Inr answer)"

subsection \<open>The statistics of the pattern check in the words of the specification\<close>

text \<open>The mean and the population standard deviation of a list of real numbers, to be
  compared with what \<open>verifyAttendancePattern\<close> and \<open>calculateStandardDeviation\<close> compute.\<close>

definition mean :: "real list \<Rightarrow> real" where
  "mean xs = sum_list xs / real (length xs)"

definition population_stddev :: "real list \<Rightarrow> real" where
  "population_stddev xs = sqrt ((\<Sum>x\<leftarrow>xs. (x - mean xs)\<^sup>2) / real (length xs))"

subsection \<open>Engines\<close>

text \<open>The arithmetic of the real numbers: an engine without rounding. It runs the sample
  invocations, on inputs where rounding does not change the outcome of a comparison, and it
  relates what the source computes to the mathematical distance, mean and deviation.\<close>

definition lift2 :: "(real \<Rightarrow> real \<Rightarrow> real) \<Rightarrow> jsnum \<Rightarrow> jsnum \<Rightarrow> jsnum" where
  "lift2 f x y =
     (case x of None \<Rightarrow> None | Some a \<Rightarrow> (case y of None \<Rightarrow> None | Some b \<Rightarrow> Some (f a b)))"

definition exact_div :: "jsnum \<Rightarrow> jsnum \<Rightarrow> jsnum" where
  "exact_div x y =
     (case x of None \<Rightarrow> None | Some a \<Rightarrow>
        (case y of None \<Rightarrow> None | Some b \<Rightarrow> if b = 0 then None else Some (a / b)))"

definition exact_sqrt :: "jsnum \<Rightarrow> jsnum" where
  "exact_sqrt x = (case x of None \<Rightarrow> None | Some a \<Rightarrow> if a < 0 then None else Some (sqrt a))"

definition exact_pow :: "jsnum \<Rightarrow> jsnum \<Rightarrow> jsnum" where
  "exact_pow x y =
     (case x of None \<Rightarrow> None | Some a \<Rightarrow>
        (case y of None \<Rightarrow> None | Some b \<Rightarrow>
           if b = 2 then Some (a * a)
           else if 0 < a then Some (a powr b)
           else None))"

definition exact_engine :: engine where
  "exact_engine =
     \<lparr>num_add = lift2 (+), num_sub = lift2 (-), num_mul = lift2 (*), num_div = exact_div,
      Math_abs = map_option abs, Math_sqrt = exact_sqrt,
      Math_sin = map_option sin, Math_cos = map_option cos,
      Math_atan2 = lift2 atan2, Math_pow = exact_pow, Math_PI = Some pi\<rparr>"

text \<open>What the statements about identical check-in times need of the engine: sums,
  differences, products and quotients of integers up to \<open>2 ^ 53\<close> are exact when the result
  is such an integer, the absolute value is exact, and the square and the square root of 0
  are 0. Doubles with rounding to nearest satisfy this: every integer up to \<open>2 ^ 53\<close> is a
  double, an operation whose exact result is a double returns it, and the language fixes
  \<open>Math.pow(0, 2)\<close> and \<open>Math.sqrt(0)\<close> to 0.\<close>

definition small_int :: "real \<Rightarrow> bool" where
  "small_int x \<longleftrightarrow> x \<in> \<int> \<and> \<bar>x\<bar> \<le> 2 ^ 53"

definition integer_exact :: "engine \<Rightarrow> bool" where
  "integer_exact en \<longleftrightarrow>
     (\<forall>a b. small_int a \<and> small_int b \<and> small_int (a + b) \<longrightarrow>
        num_add en (Some a) (Some b) = Some (a + b)) \<and>
     (\<forall>a b. small_int a \<and> small_int b \<and> small_int (a - b) \<longrightarrow>
        num_sub en (Some a) (Some b) = Some (a - b)) \<and>
     (\<forall>a b. small_int a \<and> small_int b \<and> small_int (a * b) \<longrightarrow>
        num_mul en (Some a) (Some b) = Some (a * b)) \<and>
     (\<forall>a b. small_int a \<and> small_int b \<and> b \<noteq> 0 \<and> small_int (a / b) \<longrightarrow>
        num_div en (Some a) (Some b) = Some (a / b)) \<and>
     (\<forall>a. Math_abs en (Some a) = Some \<bar>a\<bar>) \<and>
     Math_pow en (Some 0) (Some 2) = Some 0 \<and>
     Math_sqrt en (Some 0) = Some 0"

subsection \<open>Sample invocations\<close>

text \<open>The scenario of the specification: the office at (35.7, 51.4), a current location on
  the meridian of the office, no recent locations, the default working hours, a user without
  history, the exact engine, a user who gives the same answer at every display of the dialog.\<close>

definition sample_location :: "real \<Rightarrow> location" where
  "sample_location lat =
     \<lparr>latitude = Some lat, longitude = Some 51.4, accuracy = Some 10,
      altitude = Some 1200, timestamp = 60000\<rparr>"

definition sample_env :: "location \<Rightarrow> date \<Rightarrow> bool \<Rightarrow> env" where
  "sample_env loc clock confirm =
     \<lparr>ANTI_SPOOFING = True,
      getCurrentLocation = Inr (Some loc),
      isInOfficeRange = (\<lambda>lat lng. True),
      getRecentLocations = [],
      now = clock,
      settings_workStartTime = None,
      settings_workEndTime = None,
      currentUser = Some 1,
      getUserAttendance = (\<lambda>uid days. Inr []),
      js = exact_engine,
      modals_show = (\<lambda>n. Inr confirm)\<rparr>"

text \<open>A history of three check-ins at 08:00, one check-out and one record without
  timestamp.\<close>

definition sample_history :: "attendance list" where
  "sample_history =
     [\<lparr>atype = ''check_in'', atimestamp = Some \<lparr>getHours = 8, getMinutes = 0\<rparr>\<rparr>,
      \<lparr>atype = ''check_out'', atimestamp = Some \<lparr>getHours = 17, getMinutes = 0\<rparr>\<rparr>,
      \<lparr>atype = ''check_in'', atimestamp = Some \<lparr>getHours = 8, getMinutes = 0\<rparr>\<rparr>,
      \<lparr>atype = ''check_in'', atimestamp = None\<rparr>,
      \<lparr>atype = ''check_in'', atimestamp = Some \<lparr>getHours = 8, getMinutes = 0\<rparr>\<rparr>]"

section \<open>Properties\<close>

subsection \<open>The time window\<close>

text \<open>
  Claim C5. The time-window check of \<open>verifyAttendanceTime\<close> passes for a check-in iff the
  absolute difference between the current minutes since midnight and the work start is at
  most 120, the boundary included; it passes for a check-out iff the current minutes since
  midnight lie between the work start and the work start plus 600, both included.
\<close>

theorem verifyAttendanceTime_window:
  "(t_verified (verifyAttendanceTime e ''check_in'') \<longleftrightarrow>
      \<bar>minutesSinceMidnight (now e) - getWorkStartTime e\<bar> \<le> 120) \<and>
   (t_verified (verifyAttendanceTime e ''check_out'') \<longleftrightarrow>
      getWorkStartTime e \<le> minutesSinceMidnight (now e) \<and>
      minutesSinceMidnight (now e) \<le> getWorkStartTime e + 600)"
  by (simp add: verifyAttendanceTime_def Let_def)

text \<open>With the default work start 08:00: a check-in passes at 10:00 and at 06:00 and fails
  at 10:01 and at 05:59; a check-out passes at 08:00 and at 18:00 and fails at 07:59 and
  at 18:01.\<close>

theorem verifyAttendanceTime_window_witness:
  "t_verified (verifyAttendanceTime
      (sample_env (sample_location 35.7) \<lparr>getHours = 10, getMinutes = 0\<rparr> False) ''check_in'') \<and>
   t_verified (verifyAttendanceTime
      (sample_env (sample_location 35.7) \<lparr>getHours = 6, getMinutes = 0\<rparr> False) ''check_in'') \<and>
   \<not> t_verified (verifyAttendanceTime
      (sample_env (sample_location 35.7) \<lparr>getHours = 10, getMinutes = 1\<rparr> False) ''check_in'') \<and>
   \<not> t_verified (verifyAttendanceTime
      (sample_env (sample_location 35.7) \<lparr>getHours = 5, getMinutes = 59\<rparr> False) ''check_in'') \<and>
   t_verified (verifyAttendanceTime
      (sample_env (sample_location 35.7) \<lparr>getHours = 8, getMinutes = 0\<rparr> False) ''check_out'') \<and>
   t_verified (verifyAttendanceTime
      (sample_env (sample_location 35.7) \<lparr>getHours = 18, getMinutes = 0\<rparr> False) ''check_out'') \<and>
   \<not> t_verified (verifyAttendanceTime
      (sample_env (sample_location 35.7) \<lparr>getHours = 7, getMinutes = 59\<rparr> False) ''check_out'') \<and>
   \<not> t_verified (verifyAttendanceTime
      (sample_env (sample_location 35.7) \<lparr>getHours = 18, getMinutes = 1\<rparr> False) ''check_out'')"
  using
    verifyAttendanceTime_window
      [of "sample_env (sample_location 35.7) \<lparr>getHours = 10, getMinutes = 0\<rparr> False"]
    verifyAttendanceTime_window
      [of "sample_env (sample_location 35.7) \<lparr>getHours = 6, getMinutes = 0\<rparr> False"]
    verifyAttendanceTime_window
      [of "sample_env (sample_location 35.7) \<lparr>getHours = 10, getMinutes = 1\<rparr> False"]
    verifyAttendanceTime_window
      [of "sample_env (sample_location 35.7) \<lparr>getHours = 5, getMinutes = 59\<rparr> False"]
    verifyAttendanceTime_window
      [of "sample_env (sample_location 35.7) \<lparr>getHours = 8, getMinutes = 0\<rparr> False"]
    verifyAttendanceTime_window
      [of "sample_env (sample_location 35.7) \<lparr>getHours = 18, getMinutes = 0\<rparr> False"]
    verifyAttendanceTime_window
      [of "sample_env (sample_location 35.7) \<lparr>getHours = 7, getMinutes = 59\<rparr> False"]
    verifyAttendanceTime_window
      [of "sample_env (sample_location 35.7) \<lparr>getHours = 18, getMinutes = 1\<rparr> False"]
  by (simp add: sample_env_def minutesSinceMidnight_def getWorkStartTime_def)

subsection \<open>The altitude check\<close>

text \<open>
  Claim C7. The altitude check passes for a location whose altitude is present and between
  800 and 2000, both included, fails for the altitudes 799 and 2001, and passes trivially when
  the location carries no altitude. The statement gives the result for every location: a
  missing altitude and the falsy altitude 0 pass, every other altitude passes iff it lies in
  the closed range.
\<close>

theorem checkAltitudeAnomaly_range:
  "passed (checkAltitudeAnomaly loc) \<longleftrightarrow>
     (case altitude loc of
        None \<Rightarrow> True
      | Some a \<Rightarrow> a = 0 \<or> (800 \<le> a \<and> a \<le> 2000))"
  by (auto simp add: checkAltitudeAnomaly_def Let_def truthy_def js_le_def split: option.splits)

theorem checkAltitudeAnomaly_range_witness:
  "passed (checkAltitudeAnomaly ((sample_location 35.7)\<lparr>altitude := Some 800\<rparr>)) \<and>
   passed (checkAltitudeAnomaly ((sample_location 35.7)\<lparr>altitude := Some 2000\<rparr>)) \<and>
   \<not> passed (checkAltitudeAnomaly ((sample_location 35.7)\<lparr>altitude := Some 799\<rparr>)) \<and>
   \<not> passed (checkAltitudeAnomaly ((sample_location 35.7)\<lparr>altitude := Some 2001\<rparr>)) \<and>
   passed (checkAltitudeAnomaly ((sample_location 35.7)\<lparr>altitude := None\<rparr>))"
  using
    checkAltitudeAnomaly_range [of "(sample_location 35.7)\<lparr>altitude := Some 800\<rparr>"]
    checkAltitudeAnomaly_range [of "(sample_location 35.7)\<lparr>altitude := Some 2000\<rparr>"]
    checkAltitudeAnomaly_range [of "(sample_location 35.7)\<lparr>altitude := Some 799\<rparr>"]
    checkAltitudeAnomaly_range [of "(sample_location 35.7)\<lparr>altitude := Some 2001\<rparr>"]
    checkAltitudeAnomaly_range [of "(sample_location 35.7)\<lparr>altitude := None\<rparr>"]
  by (simp add: sample_location_def)

subsection \<open>The validity test of the GPS step\<close>

lemma verifyGPSLocation_total: "\<exists>r. verifyGPSLocation e = Inr r"
  by (simp add: verifyGPSLocation_def split: sum.splits)

lemma verifyGPSLocation_verified:
  assumes "verifyGPSLocation e = Inr r"
  shows "g_verified r \<longleftrightarrow>
          (\<exists>loc. getCurrentLocation e = Inr (Some loc) \<and>
             truthy (latitude loc) \<and> truthy (longitude loc) \<and>
             isInOfficeRange e (latitude loc) (longitude loc) \<and>
             passed (checkLocationConsistency e loc) \<and>
             passed (checkSpeedAnomaly e loc) \<and>
             passed (checkAltitudeAnomaly loc))"
  using assms
  by (auto simp add: verifyGPSLocation_def verifyGPSLocation_try_def Let_def
        split: sum.splits option.splits if_splits)

text \<open>
  Claim C10. For a location sample whose latitude or longitude is exactly 0 (a coordinate
  value, not an absent field) the validity test of \<open>verifyGPSLocation\<close> treats the location
  as invalid and fails closed: the result is not verified and carries the invalid-location
  reason, whatever the tracker says about the office range.
\<close>

theorem verifyGPSLocation_zero_coordinate:
  assumes "getCurrentLocation e = Inr (Some loc)"
      and "latitude loc = Some 0 \<or> longitude loc = Some 0"
  shows "verifyGPSLocation e =
           Inr \<lparr>g_verified = False, g_reason = Some InvalidLocation,
                g_location = None, g_metadata = None\<rparr>"
  using assms
  by (auto simp add: verifyGPSLocation_def verifyGPSLocation_try_def Let_def truthy_def)

text \<open>A sample on the equator, inside the range according to the tracker.\<close>

theorem verifyGPSLocation_zero_coordinate_witness:
  "getCurrentLocation (sample_env (sample_location 0) \<lparr>getHours = 8, getMinutes = 5\<rparr> False)
     = Inr (Some (sample_location 0)) \<and>
   latitude (sample_location 0) = Some 0 \<and>
   isInOfficeRange (sample_env (sample_location 0) \<lparr>getHours = 8, getMinutes = 5\<rparr> False)
     (latitude (sample_location 0)) (longitude (sample_location 0)) \<and>
   verifyGPSLocation (sample_env (sample_location 0) \<lparr>getHours = 8, getMinutes = 5\<rparr> False) =
     Inr \<lparr>g_verified = False, g_reason = Some InvalidLocation,
          g_location = None, g_metadata = None\<rparr>"
proof -
  have loc: "getCurrentLocation (sample_env (sample_location 0) \<lparr>getHours = 8, getMinutes = 5\<rparr> False)
               = Inr (Some (sample_location 0))"
    by (simp add: sample_env_def)
  have zero: "latitude (sample_location 0) = Some 0 \<or> longitude (sample_location 0) = Some 0"
    by (simp add: sample_location_def)
  show ?thesis
    using verifyGPSLocation_zero_coordinate [OF loc zero] loc
    by (simp add: sample_env_def sample_location_def)
qed


subsection \<open>The consistency check\<close>

text \<open>On one meridian the great-circle distance is the arc of the difference of the
  latitudes, and the exact engine computes it there without leaving the domain of the square
  root. This runs \<open>calculateDistance\<close> on the sample locations.\<close>

lemma great_circle_distance_same_longitude:
  assumes "\<bar>lat2 - lat1\<bar> < 180"
  shows "great_circle_distance lat1 lon lat2 lon = 6371000 * (\<bar>lat2 - lat1\<bar> * pi / 180)"
proof -
  define x where "x = \<bar>lat2 - lat1\<bar> * pi / 360"
  have x0: "0 \<le> x" by (simp add: x_def)
  have "\<bar>lat2 - lat1\<bar> * pi < 180 * pi" using assms by simp
  then have x1: "x < pi / 2" by (simp add: x_def)
  have cx: "0 < cos x" using x0 x1 by (intro cos_gt_zero_pi) auto
  have sx: "0 \<le> sin x" using x0 x1 by (intro sin_ge_zero) auto
  have sq: "sin ((lat2 - lat1) * pi / 180 / 2) * sin ((lat2 - lat1) * pi / 180 / 2) = (sin x)\<^sup>2"
  proof (cases "lat1 \<le> lat2")
    case True then show ?thesis by (simp add: x_def power2_eq_square)
  next
    case False
    then have "(lat2 - lat1) * pi / 180 / 2 = - x" by (simp add: x_def field_simps)
    then show ?thesis by (simp add: power2_eq_square)
  qed
  have a1: "sqrt ((sin x)\<^sup>2) = sin x" using sx by simp
  have "1 - (sin x)\<^sup>2 = (cos x)\<^sup>2" using sin_cos_squared_add[of x] by linarith
  then have a2: "sqrt (1 - (sin x)\<^sup>2) = cos x" using cx by simp
  have "arctan (sin x / cos x) = x"
    using arctan_tan[of x] x0 x1 by (simp add: tan_def)
  then have at: "atan2 (sin x) (cos x) = x" using cx by (simp add: atan2_def)
  have "great_circle_distance lat1 lon lat2 lon =
          6371000 * (2 * atan2 (sqrt ((sin x)\<^sup>2)) (sqrt (1 - (sin x)\<^sup>2)))"
    unfolding great_circle_distance_def Let_def sq by simp
  also have "\<dots> = 6371000 * (2 * x)" unfolding a1 a2 at ..
  also have "\<dots> = 6371000 * (\<bar>lat2 - lat1\<bar> * pi / 180)" by (simp add: x_def)
  finally show ?thesis .
qed

lemma calculateDistance_exact_same_longitude:
  "calculateDistance exact_engine (Some lat1) (Some lon) (Some lat2) (Some lon) =
     Some (great_circle_distance lat1 lon lat2 lon)"
proof -
  define s where "s = sin ((lat2 - lat1) * pi / 180 / 2)"
  have s1: "s * s \<le> 1"
    using abs_sin_le_one [of "(lat2 - lat1) * pi / 180 / 2"]
    by (simp add: s_def power2_eq_square [symmetric] abs_square_le_1)
  have s0: "0 \<le> s * s" by simp
  show ?thesis
    using s0 s1
    by (simp add: calculateDistance_def great_circle_distance_def exact_engine_def lift2_def
          exact_div_def exact_sqrt_def Let_def s_def not_less)
qed

lemma checkLocationConsistency_passed:
  "passed (checkLocationConsistency e loc) \<longleftrightarrow>
     getRecentLocations e = [] \<or>
     js_le (calculateDistance (js e)
              (latitude (last (getRecentLocations e))) (longitude (last (getRecentLocations e)))
              (latitude loc) (longitude loc))
           (num_mul (js e) (Some 50)
              (num_div (js e)
                 (Some (real_of_int (timestamp loc - timestamp (last (getRecentLocations e)))))
                 (Some 1000)))"
  by (simp add: checkLocationConsistency_def Let_def last_conv_nth)

text \<open>With an engine that is exact on small integers, the bound for an elapsed time of
  \<open>k\<close> whole seconds is \<open>50 * k\<close>.\<close>

lemma speed_bound_whole_seconds:
  assumes "integer_exact en" and "\<bar>k\<bar> \<le> 2 ^ 40"
  shows "num_mul en (Some 50) (num_div en (Some (real_of_int (1000 * k))) (Some 1000))
           = Some (50 * real_of_int k)"
proof -
  have b: "\<bar>real_of_int k\<bar> \<le> 2 ^ 40"
    using assms(2) by (metis of_int_abs of_int_le_iff of_int_numeral of_int_power)
  have k: "small_int (real_of_int k)"
    using b by (simp add: small_int_def)
  have k1000: "small_int (real_of_int (1000 * k))"
    using b by (simp add: small_int_def abs_mult)
  have k50: "small_int (50 * real_of_int k)"
    using b by (simp add: small_int_def abs_mult)
  have c: "small_int 1000" "small_int 50"
    by (simp_all add: small_int_def)
  have "small_int (real_of_int (1000 * k) / 1000)" using k by simp
  with k1000 c(1) assms(1)
  have "num_div en (Some (real_of_int (1000 * k))) (Some 1000)
          = Some (real_of_int (1000 * k) / 1000)"
    unfolding integer_exact_def by (metis zero_neq_numeral)
  then have d: "num_div en (Some (real_of_int (1000 * k))) (Some 1000) = Some (real_of_int k)"
    by simp
  from c(2) k k50 assms(1)
  have "num_mul en (Some 50) (Some (real_of_int k)) = Some (50 * real_of_int k)"
    unfolding integer_exact_def by blast
  then show ?thesis using d by simp
qed

text \<open>
  Claim C6. The location-consistency check passes iff the distance between the current sample
  and the most recent prior sample is at most 50 m/s times the elapsed time in seconds, the
  boundary included; with an empty list of recent locations it passes trivially. The distance
  is the number that \<open>calculateDistance\<close> returns and the bound the number that the engine
  computes for \<open>50 * ((t - t0) / 1000)\<close>, whatever the engine; a distance or a bound that is
  \<open>NaN\<close> fails the comparison. The third conjunct is the boundary: equal numbers pass. The
  fourth conjunct gives the bound for an elapsed time of \<open>k\<close> whole seconds and an engine
  that is exact on small integers: it is \<open>50 * k\<close>.
\<close>

theorem checkLocationConsistency_speed_bound:
  "(getRecentLocations e = [] \<longrightarrow> passed (checkLocationConsistency e loc)) \<and>
   (getRecentLocations e \<noteq> [] \<longrightarrow>
      (passed (checkLocationConsistency e loc) \<longleftrightarrow>
         js_le (calculateDistance (js e)
                  (latitude (last (getRecentLocations e))) (longitude (last (getRecentLocations e)))
                  (latitude loc) (longitude loc))
               (num_mul (js e) (Some 50)
                  (num_div (js e)
                     (Some (real_of_int (timestamp loc - timestamp (last (getRecentLocations e)))))
                     (Some 1000))))) \<and>
   (getRecentLocations e \<noteq> [] \<and>
    calculateDistance (js e)
      (latitude (last (getRecentLocations e))) (longitude (last (getRecentLocations e)))
      (latitude loc) (longitude loc) = Some d \<and>
    num_mul (js e) (Some 50)
      (num_div (js e)
         (Some (real_of_int (timestamp loc - timestamp (last (getRecentLocations e)))))
         (Some 1000)) = Some d \<longrightarrow>
      passed (checkLocationConsistency e loc)) \<and>
   (getRecentLocations e \<noteq> [] \<and> integer_exact (js e) \<and>
    timestamp loc - timestamp (last (getRecentLocations e)) = 1000 * k \<and> \<bar>k\<bar> \<le> 2 ^ 40 \<longrightarrow>
      (passed (checkLocationConsistency e loc) \<longleftrightarrow>
         js_le (calculateDistance (js e)
                  (latitude (last (getRecentLocations e))) (longitude (last (getRecentLocations e)))
                  (latitude loc) (longitude loc))
               (Some (50 * real_of_int k))))"
proof -
  have w: "passed (checkLocationConsistency e loc) \<longleftrightarrow>
         js_le (calculateDistance (js e)
                  (latitude (last (getRecentLocations e))) (longitude (last (getRecentLocations e)))
                  (latitude loc) (longitude loc))
               (Some (50 * real_of_int k))"
    if "getRecentLocations e \<noteq> []" "integer_exact (js e)"
       "timestamp loc - timestamp (last (getRecentLocations e)) = 1000 * k" "\<bar>k\<bar> \<le> 2 ^ 40"
    using that(1) speed_bound_whole_seconds [OF that(2,4)]
    by (simp add: checkLocationConsistency_passed that(3))
  show ?thesis
    using w unfolding checkLocationConsistency_passed
    by (auto simp add: js_le_def)
qed

text \<open>With the exact engine: no recent location; a prior sample about 1112 m away taken 60 s
  earlier (passes) and 1 s earlier (fails); a prior sample at the same place and time, the
  boundary \<open>0 \<le> 50 * 0\<close> (passes).\<close>

theorem checkLocationConsistency_speed_bound_witness:
  "passed (checkLocationConsistency
      (sample_env (sample_location 35.7) \<lparr>getHours = 8, getMinutes = 5\<rparr> False) (sample_location 35.7)) \<and>
   passed (checkLocationConsistency
      ((sample_env (sample_location 35.7) \<lparr>getHours = 8, getMinutes = 5\<rparr> False)
         \<lparr>getRecentLocations := [sample_location 35.8, (sample_location 35.71)\<lparr>timestamp := 0\<rparr>]\<rparr>)
      (sample_location 35.7)) \<and>
   \<not> passed (checkLocationConsistency
      ((sample_env (sample_location 35.7) \<lparr>getHours = 8, getMinutes = 5\<rparr> False)
         \<lparr>getRecentLocations := [sample_location 35.8, (sample_location 35.71)\<lparr>timestamp := 59000\<rparr>]\<rparr>)
      (sample_location 35.7)) \<and>
   passed (checkLocationConsistency
      ((sample_env (sample_location 35.7) \<lparr>getHours = 8, getMinutes = 5\<rparr> False)
         \<lparr>getRecentLocations := [sample_location 35.8, sample_location 35.7]\<rparr>)
      (sample_location 35.7))"
proof -
  have p: "2 \<le> pi" "pi < 4" using pi_ge_two pi_less_4 by simp_all
  have g1: "great_circle_distance 35.71 51.4 35.7 51.4 = 6371000 * (0.01 * pi / 180)"
    using great_circle_distance_same_longitude
            [where ?lat1.0 = "35.71" and ?lat2.0 = "35.7" and lon = "51.4"]
    by simp
  have g2: "great_circle_distance 35.7 51.4 35.7 51.4 = 0"
    using great_circle_distance_same_longitude
            [where ?lat1.0 = "35.7" and ?lat2.0 = "35.7" and lon = "51.4"]
    by simp
  have d1: "calculateDistance exact_engine (Some 35.71) (Some 51.4) (Some 35.7) (Some 51.4)
              = Some (6371000 * (0.01 * pi / 180))"
    by (simp only: calculateDistance_exact_same_longitude g1)
  have d2: "calculateDistance exact_engine (Some 35.7) (Some 51.4) (Some 35.7) (Some 51.4) = Some 0"
    by (simp only: calculateDistance_exact_same_longitude g2)
  have m: "\<And>x. num_mul exact_engine (Some 50) (num_div exact_engine (Some x) (Some 1000))
              = Some (50 * (x / 1000))"
    by (simp add: exact_engine_def lift2_def exact_div_def)
  let ?e = "sample_env (sample_location 35.7) \<lparr>getHours = 8, getMinutes = 5\<rparr> False"
  have c1: "passed (checkLocationConsistency ?e (sample_location 35.7))"
    using checkLocationConsistency_speed_bound [of ?e "sample_location 35.7" 0 0]
    by (simp add: sample_env_def)
  have c2: "passed (checkLocationConsistency
             (?e\<lparr>getRecentLocations := [sample_location 35.8, (sample_location 35.71)\<lparr>timestamp := 0\<rparr>]\<rparr>)
             (sample_location 35.7))"
    using checkLocationConsistency_speed_bound
            [of "?e\<lparr>getRecentLocations := [sample_location 35.8, (sample_location 35.71)\<lparr>timestamp := 0\<rparr>]\<rparr>"
                "sample_location 35.7" 0 60] p d1
    by (simp add: sample_env_def sample_location_def m js_le_def)
  have c3: "\<not> passed (checkLocationConsistency
             (?e\<lparr>getRecentLocations := [sample_location 35.8, (sample_location 35.71)\<lparr>timestamp := 59000\<rparr>]\<rparr>)
             (sample_location 35.7))"
    using checkLocationConsistency_speed_bound
            [of "?e\<lparr>getRecentLocations := [sample_location 35.8, (sample_location 35.71)\<lparr>timestamp := 59000\<rparr>]\<rparr>"
                "sample_location 35.7" 0 1] p d1
    by (simp add: sample_env_def sample_location_def m js_le_def)
  have c4: "passed (checkLocationConsistency
             (?e\<lparr>getRecentLocations := [sample_location 35.8, sample_location 35.7]\<rparr>)
             (sample_location 35.7))"
    using checkLocationConsistency_speed_bound
            [of "?e\<lparr>getRecentLocations := [sample_location 35.8, sample_location 35.7]\<rparr>"
                "sample_location 35.7" 0 0] d2
    by (simp add: sample_env_def sample_location_def m js_le_def)
  show ?thesis using c1 c2 c3 c4 by blast
qed

subsection \<open>The pattern check\<close>

text \<open>In exact arithmetic \<open>reduce_add\<close> is the sum and \<open>calculateStandardDeviation\<close> is the
  population standard deviation: the sum of the squared differences from the mean is divided
  by the number of values.\<close>

lemma exact_engine_simps:
  "num_add exact_engine = lift2 (+)" "num_sub exact_engine = lift2 (-)"
  "num_mul exact_engine = lift2 (*)" "num_div exact_engine = exact_div"
  "Math_abs exact_engine = map_option abs" "Math_sqrt exact_engine = exact_sqrt"
  "Math_sin exact_engine = map_option sin" "Math_cos exact_engine = map_option cos"
  "Math_atan2 exact_engine = lift2 atan2" "Math_pow exact_engine = exact_pow"
  "Math_PI exact_engine = Some pi"
  by (simp_all add: exact_engine_def)

lemma foldl_add_exact:
  "foldl (num_add exact_engine) (Some a) (map Some xs) = Some (a + sum_list xs)"
  by (induction xs arbitrary: a) (simp_all add: exact_engine_simps lift2_def add.assoc)

lemma reduce_add_exact: "reduce_add exact_engine (map Some xs) = Some (sum_list xs)"
  by (simp add: reduce_add_def foldl_add_exact)

lemma reduce_add_exact_map:
  "reduce_add exact_engine (map (Some \<circ> f) xs) = Some (\<Sum>x\<leftarrow>xs. f x)"
  using reduce_add_exact [of "map f xs"] by simp

lemma calculateStandardDeviation_exact:
  assumes "xs \<noteq> []"
  shows "calculateStandardDeviation exact_engine (map Some xs) = Some (population_stddev xs)"
proof -
  have n: "real (length xs) \<noteq> 0" using assms by simp
  have avg: "num_div exact_engine (reduce_add exact_engine (map Some xs)) (Some (real (length xs)))
               = Some (mean xs)"
    using n by (simp add: reduce_add_exact exact_engine_simps exact_div_def mean_def)
  have sq: "map (\<lambda>n. Math_pow exact_engine (num_sub exact_engine n (Some (mean xs))) (Some 2))
              (map Some xs) = map Some (map (\<lambda>x. (x - mean xs)\<^sup>2) xs)"
    by (simp add: exact_engine_simps exact_pow_def lift2_def power2_eq_square)
  have nonneg: "0 \<le> (\<Sum>x\<leftarrow>xs. (x - mean xs)\<^sup>2) / real (length xs)"
    by (intro divide_nonneg_nonneg sum_list_nonneg) auto
  have "calculateStandardDeviation exact_engine (map Some xs) =
          Math_sqrt exact_engine
            (num_div exact_engine
               (reduce_add exact_engine (map Some (map (\<lambda>x. (x - mean xs)\<^sup>2) xs)))
               (Some (real (length xs))))"
    by (simp only: calculateStandardDeviation_def Let_def length_map avg sq)
  also have "\<dots> = Some (population_stddev xs)"
    using n nonneg
    by (simp add: reduce_add_exact_map exact_engine_simps exact_div_def exact_sqrt_def
          population_stddev_def not_less)
  finally show ?thesis .
qed

text \<open>With an engine that is exact on small integers, the sum of up to \<open>2 ^ 32\<close> equal
  minutes of the day is exact, so their mean is that minute and their deviation is 0.\<close>

lemma small_int_multiple:
  assumes "k \<le> 2 ^ 32" and "0 \<le> t" and "t < 1440"
  shows "small_int (real k * real_of_int t)"
proof -
  have "real k * real_of_int t \<le> 2 ^ 32 * 1440"
    using assms by (intro mult_mono) auto
  moreover have "0 \<le> real k * real_of_int t" using assms by simp
  moreover have "real k * real_of_int t \<in> \<int>" by simp
  ultimately show ?thesis by (simp add: small_int_def)
qed

lemma small_int_minute:
  assumes "0 \<le> t" and "t < 1440"
  shows "small_int (real_of_int t)"
  using small_int_multiple [of 1 t] assms by simp

lemma foldl_add_replicate:
  assumes "integer_exact en" and "0 \<le> t" and "t < 1440" and "k + n \<le> 2 ^ 32"
  shows "foldl (num_add en) (Some (real k * real_of_int t)) (replicate n (num t))
           = Some (real (k + n) * real_of_int t)"
  using assms(4)
proof (induction n arbitrary: k)
  case 0
  then show ?case by simp
next
  case (Suc n)
  have k: "k \<le> 2 ^ 32" and k1: "Suc k \<le> 2 ^ 32" using Suc.prems by simp_all
  have "num_add en (Some (real k * real_of_int t)) (Some (real_of_int t))
          = Some (real k * real_of_int t + real_of_int t)"
  proof -
    have "small_int (real k * real_of_int t + real_of_int t)"
      using small_int_multiple [OF k1 assms(2,3)] by (simp add: algebra_simps)
    with small_int_multiple [OF k assms(2,3)] small_int_minute [OF assms(2,3)] assms(1)
    show ?thesis unfolding integer_exact_def by blast
  qed
  then have step: "num_add en (Some (real k * real_of_int t)) (num t)
          = Some (real (Suc k) * real_of_int t)"
    by (simp add: num_def algebra_simps)
  have "foldl (num_add en) (Some (real (Suc k) * real_of_int t)) (replicate n (num t))
          = Some (real (Suc k + n) * real_of_int t)"
    using Suc.IH [of "Suc k"] Suc.prems by simp
  then show ?case using step by simp
qed

lemma foldl_add_zeros:
  assumes "integer_exact en"
  shows "foldl (num_add en) (Some 0) (replicate n (Some 0)) = Some 0"
proof (induction n)
  case 0
  then show ?case by simp
next
  case (Suc n)
  have "small_int 0" by (simp add: small_int_def)
  then have "num_add en (Some 0) (Some 0) = Some 0"
    using assms unfolding integer_exact_def by (metis add.right_neutral)
  then show ?case using Suc by simp
qed

lemma identical_replicate:
  assumes "set xs = {t}"
  shows "xs = replicate (length xs) t"
  using assms by (metis replicate_length_same singletonD)

lemma small_int_count:
  assumes "n \<le> 2 ^ 32"
  shows "small_int (real n)"
proof -
  have "real n \<le> 2 ^ 32" using assms by (metis of_nat_le_iff of_nat_numeral of_nat_power)
  then have "real n \<le> 2 ^ 53" by simp
  then show ?thesis by (simp add: small_int_def)
qed

lemma average_identical:
  assumes "integer_exact en" and "0 \<le> t" and "t < 1440" and "0 < n" and "n \<le> 2 ^ 32"
  shows "num_div en (reduce_add en (replicate n (num t))) (Some (real n)) = num t"
proof -
  have "foldl (num_add en) (Some (real 0 * real_of_int t)) (replicate n (num t))
          = Some (real (0 + n) * real_of_int t)"
    using assms by (intro foldl_add_replicate) auto
  then have sum: "reduce_add en (replicate n (num t)) = Some (real n * real_of_int t)"
    by (simp add: reduce_add_def)
  have "small_int (real n * real_of_int t / real n)"
    using small_int_minute [OF assms(2,3)] assms(4) by simp
  with small_int_multiple [OF assms(5,2,3)] small_int_count [OF assms(5)] assms(1,4)
  have "num_div en (Some (real n * real_of_int t)) (Some (real n))
          = Some (real n * real_of_int t / real n)"
    unfolding integer_exact_def by (metis of_nat_0_less_iff less_numeral_extra(3))
  then show ?thesis using sum assms(4) by (simp add: num_def)
qed

lemma calculateStandardDeviation_identical:
  assumes "integer_exact en" and "0 \<le> t" and "t < 1440" and "0 < n" and "n \<le> 2 ^ 32"
  shows "calculateStandardDeviation en (replicate n (num t)) = Some 0"
proof -
  have z: "small_int 0" by (simp add: small_int_def)
  have "small_int (real_of_int t - real_of_int t)" using z by simp
  with small_int_minute [OF assms(2,3)] assms(1)
  have "num_sub en (Some (real_of_int t)) (Some (real_of_int t))
          = Some (real_of_int t - real_of_int t)"
    unfolding integer_exact_def by blast
  then have sub: "num_sub en (num t) (num t) = Some 0" by (simp add: num_def)
  have pow: "Math_pow en (Some 0) (Some 2) = Some 0"
    using assms(1) by (simp add: integer_exact_def)
  have "small_int (0 / real n)" using z by simp
  with z small_int_count [OF assms(5)] assms(1,4)
  have "num_div en (Some 0) (Some (real n)) = Some (0 / real n)"
    unfolding integer_exact_def by (metis of_nat_0_less_iff less_numeral_extra(3))
  then have div: "num_div en (Some 0) (Some (real n)) = Some 0" by simp
  have sqrt: "Math_sqrt en (Some 0) = Some 0"
    using assms(1) by (simp add: integer_exact_def)
  have zeros: "reduce_add en (replicate n (Some 0)) = Some 0"
    using foldl_add_zeros [OF assms(1)] by (simp add: reduce_add_def)
  show ?thesis
    by (simp add: calculateStandardDeviation_def Let_def average_identical [OF assms]
          sub pow zeros div sqrt)
qed

lemma verifyAttendancePattern_identical:
  assumes "integer_exact (js e)"
      and "currentUser e = Some uid"
      and "getUserAttendance e uid 30 = Inr history"
      and "set (checkInTimes history) = {t}"
      and "0 \<le> t" and "t < 1440"
      and "0 \<le> minutesSinceMidnight (now e)" and "minutesSinceMidnight (now e) < 1440"
      and "length (checkInTimes history) \<le> 2 ^ 32"
  shows "\<exists>p. verifyAttendancePattern e ty = Inr p \<and>
           (p_verified p \<longleftrightarrow> minutesSinceMidnight (now e) = t)"
proof -
  let ?c = "minutesSinceMidnight (now e)"
  let ?n = "length (checkInTimes history)"
  have ne: "checkInTimes history \<noteq> []" using assms(4) by auto
  then have hne: "history \<noteq> []" by (auto simp add: checkInTimes_def)
  have n0: "0 < ?n" using ne by simp
  have rep: "map num (checkInTimes history) = replicate ?n (num t)"
    using identical_replicate [OF assms(4)] by (metis map_replicate)
  have avg: "num_div (js e) (reduce_add (js e) (map num (checkInTimes history))) (Some (real ?n))
               = num t"
    unfolding rep using average_identical [OF assms(1,5,6) n0 assms(9)] .
  have sd: "calculateStandardDeviation (js e) (map num (checkInTimes history)) = Some 0"
    unfolding rep using calculateStandardDeviation_identical [OF assms(1,5,6) n0 assms(9)] .
  have z: "small_int 0" and two: "small_int 2" by (simp_all add: small_int_def)
  have "small_int (0 * 2)" using z by simp
  with z two assms(1) have "num_mul (js e) (Some 0) (Some 2) = Some (0 * 2)"
    unfolding integer_exact_def by blast
  then have mul: "num_mul (js e) (Some 0) (Some 2) = Some 0" by simp
  have "\<bar>real_of_int ?c - real_of_int t\<bar> \<le> 2 ^ 53"
    using assms(5-8) by simp
  moreover have "real_of_int ?c - real_of_int t \<in> \<int>" by simp
  ultimately have "small_int (real_of_int ?c - real_of_int t)" by (simp add: small_int_def)
  with small_int_minute [OF assms(7,8)] small_int_minute [OF assms(5,6)] assms(1)
  have "num_sub (js e) (Some (real_of_int ?c)) (Some (real_of_int t))
          = Some (real_of_int ?c - real_of_int t)"
    unfolding integer_exact_def by blast
  then have sub: "num_sub (js e) (num ?c) (num t) = Some (real_of_int ?c - real_of_int t)"
    by (simp add: num_def)
  have abs: "Math_abs (js e) (Some (real_of_int ?c - real_of_int t))
               = Some \<bar>real_of_int ?c - real_of_int t\<bar>"
    using assms(1) by (simp add: integer_exact_def)
  show ?thesis
    using assms(2,3) hne ne
    by (simp add: verifyAttendancePattern_def Let_def avg sd mul sub abs js_le_def)
qed

text \<open>In exact arithmetic the pattern check is the two-sigma test on the mean and the
  population standard deviation of the check-in minutes.\<close>

lemma verifyAttendancePattern_exact:
  assumes "js e = exact_engine"
      and "currentUser e = Some uid"
      and "getUserAttendance e uid 30 = Inr history"
      and "checkInTimes history \<noteq> []"
  shows "\<exists>p. verifyAttendancePattern e ty = Inr p \<and>
           (p_verified p \<longleftrightarrow>
              \<bar>real_of_int (minutesSinceMidnight (now e)) - mean (map real_of_int (checkInTimes history))\<bar>
                \<le> 2 * population_stddev (map real_of_int (checkInTimes history)))"
proof -
  let ?xs = "map real_of_int (checkInTimes history)"
  have hne: "history \<noteq> []" using assms(4) by (auto simp add: checkInTimes_def)
  let ?c = "real_of_int (minutesSinceMidnight (now e))"
  have xs: "?xs \<noteq> []" using assms(4) by simp
  have n: "real (length (checkInTimes history)) \<noteq> 0" using assms(4) by simp
  have m: "map num (checkInTimes history) = map Some ?xs" by (simp add: num_def)
  have r: "reduce_add (js e) (map num (checkInTimes history)) = Some (sum_list ?xs)"
    unfolding assms(1) m by (rule reduce_add_exact)
  have avg: "num_div (js e) (Some (sum_list ?xs)) (Some (real (length (checkInTimes history))))
               = Some (mean ?xs)"
    unfolding assms(1) using n by (simp add: exact_engine_simps exact_div_def mean_def)
  have sd: "calculateStandardDeviation (js e) (map num (checkInTimes history))
              = Some (population_stddev ?xs)"
    unfolding assms(1) m by (rule calculateStandardDeviation_exact [OF xs])
  have sub: "num_sub (js e) (num (minutesSinceMidnight (now e))) (Some (mean ?xs))
               = Some (?c - mean ?xs)"
    unfolding assms(1) by (simp add: exact_engine_simps lift2_def num_def)
  have abs: "Math_abs (js e) (Some (?c - mean ?xs)) = Some \<bar>?c - mean ?xs\<bar>"
    unfolding assms(1) by (simp add: exact_engine_simps)
  have mul: "num_mul (js e) (Some (population_stddev ?xs)) (Some 2)
               = Some (2 * population_stddev ?xs)"
    unfolding assms(1) by (simp add: exact_engine_simps lift2_def)
  show ?thesis
    using assms(2,3) hne assms(4)
    by (simp add: verifyAttendancePattern_def Let_def r avg sd sub abs mul js_le_def)
qed

lemma integer_exact_exact_engine: "integer_exact exact_engine"
  by (auto simp add: integer_exact_def exact_engine_simps lift2_def exact_div_def exact_pow_def
        exact_sqrt_def)


lemma checkInTimes_sample_history: "checkInTimes sample_history = [480, 480, 480]"
  by (simp add: checkInTimes_def sample_history_def minutesSinceMidnight_def)


subsection \<open>The composite verdict\<close>

text \<open>When the GPS step is switched off or does not verify, a returned verdict carries the
  outcome of the manual confirmation, and a verdict is returned when the dialog resolves at
  its first display. When the GPS step verifies and the pattern step returns, the verdict is
  \<open>verified\<close> with the \<open>gps\<close> mark and no dialog is displayed. When the pattern step throws,
  the \<open>catch\<close> displays the dialog.\<close>

lemma verifyAttendance_gps_rejected:
  assumes "verifyAttendance e ty = Inr v"
      and "\<not> ANTI_SPOOFING e \<or> (\<exists>r. verifyGPSLocation e = Inr r \<and> \<not> g_verified r)"
  shows "manualOutcome e ty (verified v) \<and> vmethod v \<in> {manual, manual_fallback} \<and>
         vlocation v = None \<and> md_gps (vmetadata v) = None"
  using assms
  by (auto simp add: verifyAttendance_def verifyAttendance_try_def manualOutcome_def Let_def
        split: sum.splits option.splits if_splits prod.splits)

lemma verifyAttendance_gps_rejected_returns:
  assumes "\<not> ANTI_SPOOFING e \<or> (\<exists>r. verifyGPSLocation e = Inr r \<and> \<not> g_verified r)"
      and "manualVerification e 0 ty = Inr answer"
  shows "\<exists>v. verifyAttendance e ty = Inr v \<and> verified v = answer"
  using assms
  by (auto simp add: verifyAttendance_def verifyAttendance_try_def Let_def
        split: sum.splits option.splits if_splits prod.splits)

lemma verifyAttendance_gps_accepted:
  assumes "ANTI_SPOOFING e" and "verifyGPSLocation e = Inr r" and "g_verified r"
      and "verifyAttendancePattern e ty = Inr p"
  shows "\<exists>v. verifyAttendance e ty = Inr v \<and> verified v \<and> vmethod v = gps \<and>
           verificationLevel (vmetadata v) = Some high"
  using assms
  by (auto simp add: verifyAttendance_def verifyAttendance_try_def Let_def
        split: sum.splits option.splits if_splits prod.splits)

lemma verifyAttendance_history_error:
  assumes "verifyAttendancePattern e ty = Inl err"
  shows "(\<forall>v. verifyAttendance e ty = Inr v \<longrightarrow>
            manualVerification e 0 ty = Inr (verified v) \<and> vmethod v = manual_fallback) \<and>
         (\<forall>answer. manualVerification e 0 ty = Inr answer \<longrightarrow>
            (\<exists>v. verifyAttendance e ty = Inr v \<and> verified v = answer))"
  using assms verifyGPSLocation_total [of e]
  by (auto simp add: verifyAttendance_def verifyAttendance_try_def Let_def
        split: sum.splits option.splits if_splits prod.splits)






text \<open>
  Claim C9. A verdict of \<open>verifyAttendance\<close> is marked \<open>gps\<close> only if the location was
  inside the office range and all three spoofing checks passed; in every other case the
  verdict is marked \<open>manual\<close> or \<open>manual_fallback\<close> and carries the outcome of the manual
  confirmation; a verified verdict rests on the manual confirmation or on the range test
  together with all three spoofing checks, never on a single check.
\<close>

theorem verifyAttendance_gps_only_if:
  assumes "verifyAttendance e ty = Inr v"
  shows "(vmethod v = gps \<longrightarrow>
            verified v \<and> ANTI_SPOOFING e \<and>
            (\<exists>loc. getCurrentLocation e = Inr (Some loc) \<and>
               truthy (latitude loc) \<and> truthy (longitude loc) \<and>
               isInOfficeRange e (latitude loc) (longitude loc) \<and>
               passed (checkLocationConsistency e loc) \<and>
               passed (checkSpeedAnomaly e loc) \<and>
               passed (checkAltitudeAnomaly loc))) \<and>
         (vmethod v \<noteq> gps \<longrightarrow>
            vmethod v \<in> {manual, manual_fallback} \<and> manualOutcome e ty (verified v)) \<and>
         (verified v \<longrightarrow>
            manualOutcome e ty True \<or>
            (\<exists>loc. getCurrentLocation e = Inr (Some loc) \<and>
               isInOfficeRange e (latitude loc) (longitude loc) \<and>
               passed (checkLocationConsistency e loc) \<and>
               passed (checkSpeedAnomaly e loc) \<and>
               passed (checkAltitudeAnomaly loc)))"
proof -
  obtain r where r: "verifyGPSLocation e = Inr r"
    using verifyGPSLocation_total by blast
  show ?thesis
  proof (cases "ANTI_SPOOFING e \<and> g_verified r")
    case True
    then obtain loc where loc: "getCurrentLocation e = Inr (Some loc)"
      "truthy (latitude loc)" "truthy (longitude loc)"
      "isInOfficeRange e (latitude loc) (longitude loc)"
      "passed (checkLocationConsistency e loc)"
      "passed (checkSpeedAnomaly e loc)"
      "passed (checkAltitudeAnomaly loc)"
      using verifyGPSLocation_verified [OF r] by blast
    have d: "verified v \<and> vmethod v = gps \<or>
             manualOutcome e ty (verified v) \<and> vmethod v = manual_fallback"
    proof (cases "verifyAttendancePattern e ty")
      case (Inl err)
      from verifyAttendance_history_error [OF Inl] assms
      have "manualVerification e 0 ty = Inr (verified v) \<and> vmethod v = manual_fallback"
        by blast
      then show ?thesis by (simp add: manualOutcome_def)
    next
      case (Inr p)
      from verifyAttendance_gps_accepted [OF _ r _ Inr] True
      obtain v' where "verifyAttendance e ty = Inr v'" "verified v'" "vmethod v' = gps"
        by blast
      with assms show ?thesis by simp
    qed
    have c1: "vmethod v = gps \<longrightarrow>
            verified v \<and> ANTI_SPOOFING e \<and>
            (\<exists>loc. getCurrentLocation e = Inr (Some loc) \<and>
               truthy (latitude loc) \<and> truthy (longitude loc) \<and>
               isInOfficeRange e (latitude loc) (longitude loc) \<and>
               passed (checkLocationConsistency e loc) \<and>
               passed (checkSpeedAnomaly e loc) \<and>
               passed (checkAltitudeAnomaly loc))"
      using d True loc by auto
    have c2: "vmethod v \<noteq> gps \<longrightarrow>
            vmethod v \<in> {manual, manual_fallback} \<and> manualOutcome e ty (verified v)"
      using d by auto
    have c3: "verified v \<longrightarrow>
            manualOutcome e ty True \<or>
            (\<exists>loc. getCurrentLocation e = Inr (Some loc) \<and>
               isInOfficeRange e (latitude loc) (longitude loc) \<and>
               passed (checkLocationConsistency e loc) \<and>
               passed (checkSpeedAnomaly e loc) \<and>
               passed (checkAltitudeAnomaly loc))"
      using loc by blast
    show ?thesis using c1 c2 c3 by blast
  next
    case False
    then have m: "manualOutcome e ty (verified v)" "vmethod v \<in> {manual, manual_fallback}"
      using verifyAttendance_gps_rejected [OF assms] r by blast+
    have c1: "vmethod v \<noteq> gps" using m(2) by auto
    have c3: "verified v \<longrightarrow> manualOutcome e ty True" using m(1) by auto
    show ?thesis using c1 m c3 by blast
  qed
qed

lemma sample_gps_accepted:
  "\<exists>r. verifyGPSLocation (sample_env (sample_location 35.7009) c b) = Inr r \<and> g_verified r"
  by (simp add: verifyGPSLocation_def verifyGPSLocation_try_def checkLocationConsistency_def
        checkSpeedAnomaly_def checkAltitudeAnomaly_def truthy_def js_le_def
        sample_env_def sample_location_def Let_def)

lemma sample_gps_accepted_history:
  "\<exists>r. verifyGPSLocation ((sample_env (sample_location 35.7009) c b)\<lparr>getUserAttendance := h\<rparr>) = Inr r \<and>
        g_verified r"
  by (simp add: verifyGPSLocation_def verifyGPSLocation_try_def checkLocationConsistency_def
        checkSpeedAnomaly_def checkAltitudeAnomaly_def truthy_def js_le_def
        sample_env_def sample_location_def Let_def)

text \<open>The scenario of the specification, about 100 m from the office at 08:05.\<close>

theorem verifyAttendance_gps_only_if_witness:
  "\<exists>v. verifyAttendance
          (sample_env (sample_location 35.7009) \<lparr>getHours = 8, getMinutes = 5\<rparr> False) ''check_in''
          = Inr v \<and>
        vmethod v = gps \<and> verified v \<and>
        passed (checkLocationConsistency
          (sample_env (sample_location 35.7009) \<lparr>getHours = 8, getMinutes = 5\<rparr> False)
          (sample_location 35.7009)) \<and>
        passed (checkSpeedAnomaly
          (sample_env (sample_location 35.7009) \<lparr>getHours = 8, getMinutes = 5\<rparr> False)
          (sample_location 35.7009)) \<and>
        passed (checkAltitudeAnomaly (sample_location 35.7009))"
proof -
  let ?e = "sample_env (sample_location 35.7009) \<lparr>getHours = 8, getMinutes = 5\<rparr> False"
  obtain r where r: "verifyGPSLocation ?e = Inr r" "g_verified r"
    using sample_gps_accepted by blast
  have a: "ANTI_SPOOFING ?e" by (simp add: sample_env_def)
  obtain p where p: "verifyAttendancePattern ?e ''check_in'' = Inr p"
    by (simp add: verifyAttendancePattern_def sample_env_def)
  from verifyAttendance_gps_accepted [OF a r p]
  obtain v where v: "verifyAttendance ?e ''check_in'' = Inr v" and m: "vmethod v = gps"
    by blast
  have loc: "getCurrentLocation ?e = Inr (Some (sample_location 35.7009))"
    by (simp add: sample_env_def)
  from verifyAttendance_gps_only_if [OF v] m loc
  show ?thesis using v by auto
qed

subsection \<open>The office range\<close>

lemma sample_distance_far: "\<not> great_circle_distance 35.7 51.4 35.71 51.4 \<le> 500"
  using pi_ge_two
    great_circle_distance_same_longitude [where ?lat1.0 = "35.7" and ?lat2.0 = "35.71" and lon = "51.4"]
  by simp

lemma sample_distance_near: "great_circle_distance 35.7 51.4 35.7009 51.4 \<le> 500"
  using pi_less_4
    great_circle_distance_same_longitude [where ?lat1.0 = "35.7" and ?lat2.0 = "35.7009" and lon = "51.4"]
  by simp

lemma verifyGPSLocation_out_of_range:
  assumes "getCurrentLocation e = Inr (Some loc)"
      and "latitude loc = Some lat" and "longitude loc = Some lng"
      and "isInOfficeRange e = GPSTracker_isInOfficeRange officeLocation maxDistance"
      and "great_circle_distance (fst officeLocation) (snd officeLocation) lat lng > maxDistance"
  shows "\<exists>r. verifyGPSLocation e = Inr r \<and> \<not> g_verified r"
  using assms
  by (simp add: verifyGPSLocation_def verifyGPSLocation_try_def Let_def
        GPSTracker_isInOfficeRange_def)

text \<open>About 1112 m from the office, with a user who confirms the dialog, the verdict is
  verified: a location out of range does not force \<open>verified = false\<close>.\<close>

theorem verifyAttendance_out_of_range_counterexample:
  "great_circle_distance 35.7 51.4 35.71 51.4 > 500 \<and>
   verifyAttendance
     ((sample_env (sample_location 35.71) \<lparr>getHours = 8, getMinutes = 5\<rparr> True)
        \<lparr>isInOfficeRange := GPSTracker_isInOfficeRange (35.7, 51.4) 500\<rparr>) ''check_in'' =
     Inr \<lparr>verified = True, vmethod = manual, vlocation = None,
          vtimestamp = \<lparr>getHours = 8, getMinutes = 5\<rparr>,
          vmetadata = \<lparr>md_gps = None,
                       md_time = Some \<lparr>tm_currentTime = 485, tm_workStart = 480,
                                        tm_workEnd = 1020, tm_type = ''check_in''\<rparr>,
                       md_pattern = None,
                       verificationLevel = Some low\<rparr>\<rparr>"
  using sample_distance_far
  by (simp add: verifyAttendance_def verifyAttendance_try_def verifyGPSLocation_def
        verifyGPSLocation_try_def verifyAttendanceTime_def verifyAttendancePattern_def
        manualVerification_def getWorkStartTime_def getWorkEndTime_def minutesSinceMidnight_def
        GPSTracker_isInOfficeRange_def truthy_def
        sample_env_def sample_location_def Let_def)

text \<open>
  Claim C2, amended. For a current location whose great-circle distance to the configured
  office point exceeds the configured maximal distance, a verdict of \<open>verifyAttendance\<close> is
  never marked \<open>gps\<close>: it is marked \<open>manual\<close> or \<open>manual_fallback\<close>, carries no location,
  and its \<open>verified\<close> flag is the outcome of the manual confirmation, whatever the other
  checks say; such a verdict is returned whenever the dialog resolves at its first display.
\<close>

theorem verifyAttendance_out_of_range:
  assumes "getCurrentLocation e = Inr (Some loc)"
      and "latitude loc = Some lat" and "longitude loc = Some lng"
      and "isInOfficeRange e = GPSTracker_isInOfficeRange officeLocation maxDistance"
      and "great_circle_distance (fst officeLocation) (snd officeLocation) lat lng > maxDistance"
  shows "(\<forall>v. verifyAttendance e ty = Inr v \<longrightarrow>
            vmethod v \<in> {manual, manual_fallback} \<and>
            manualOutcome e ty (verified v) \<and>
            vlocation v = None \<and> md_gps (vmetadata v) = None) \<and>
         (\<forall>answer. manualVerification e 0 ty = Inr answer \<longrightarrow>
            (\<exists>v. verifyAttendance e ty = Inr v \<and>
               vmethod v \<in> {manual, manual_fallback} \<and>
               verified v = answer \<and>
               vlocation v = None \<and> md_gps (vmetadata v) = None))"
proof -
  from verifyGPSLocation_out_of_range [OF assms]
  have rej: "\<not> ANTI_SPOOFING e \<or> (\<exists>r. verifyGPSLocation e = Inr r \<and> \<not> g_verified r)"
    by blast
  have a: "vmethod v \<in> {manual, manual_fallback} \<and> manualOutcome e ty (verified v) \<and>
           vlocation v = None \<and> md_gps (vmetadata v) = None"
    if "verifyAttendance e ty = Inr v" for v
    using verifyAttendance_gps_rejected [OF that rej] by blast
  have b: "\<exists>v. verifyAttendance e ty = Inr v \<and> vmethod v \<in> {manual, manual_fallback} \<and>
             verified v = answer \<and> vlocation v = None \<and> md_gps (vmetadata v) = None"
    if "manualVerification e 0 ty = Inr answer" for answer
  proof -
    from verifyAttendance_gps_rejected_returns [OF rej that]
    obtain v where v: "verifyAttendance e ty = Inr v" "verified v = answer" by blast
    with a [OF v(1)] show ?thesis by blast
  qed
  show ?thesis using a b by blast
qed

text \<open>The same location with a user who declines.\<close>

theorem verifyAttendance_out_of_range_witness:
  "great_circle_distance 35.7 51.4 35.71 51.4 > 500 \<and>
   (\<exists>v. verifyAttendance
           ((sample_env (sample_location 35.71) \<lparr>getHours = 8, getMinutes = 5\<rparr> False)
              \<lparr>isInOfficeRange := GPSTracker_isInOfficeRange (35.7, 51.4) 500\<rparr>) ''check_in'' = Inr v \<and>
         vmethod v \<in> {manual, manual_fallback} \<and> \<not> verified v \<and> vlocation v = None)"
proof -
  let ?e = "(sample_env (sample_location 35.71) \<lparr>getHours = 8, getMinutes = 5\<rparr> False)
              \<lparr>isInOfficeRange := GPSTracker_isInOfficeRange (35.7, 51.4) 500\<rparr>"
  have far: "great_circle_distance (fst (35.7, 51.4)) (snd (35.7, 51.4)) 35.71 51.4 > 500"
    using sample_distance_far by simp
  have loc: "getCurrentLocation ?e = Inr (Some (sample_location 35.71))"
    by (simp add: sample_env_def)
  have lat: "latitude (sample_location 35.71) = Some 35.71"
    and lng: "longitude (sample_location 35.71) = Some 51.4"
    by (simp_all add: sample_location_def)
  have rng: "isInOfficeRange ?e = GPSTracker_isInOfficeRange (35.7, 51.4) 500"
    by simp
  have "manualVerification ?e 0 ''check_in'' = Inr False"
    by (simp add: manualVerification_def sample_env_def)
  with verifyAttendance_out_of_range [OF loc lat lng rng far, of "''check_in''"] far
  show ?thesis by auto
qed

text \<open>With \<open>GPS.ANTI_SPOOFING\<close> switched off the GPS step is skipped: a valid location about
  100 m from the office, all three spoofing checks passing, 08:05 inside the check-in window
  and no history give a verdict that is marked \<open>manual\<close> and, the user declining, is not
  verified.\<close>

theorem verifyAttendance_gps_verified_counterexample:
  "truthy (latitude (sample_location 35.7009)) \<and>
   truthy (longitude (sample_location 35.7009)) \<and>
   great_circle_distance 35.7 51.4 35.7009 51.4 \<le> 500 \<and>
   passed (checkLocationConsistency
     ((sample_env (sample_location 35.7009) \<lparr>getHours = 8, getMinutes = 5\<rparr> False)
        \<lparr>ANTI_SPOOFING := False,
         isInOfficeRange := GPSTracker_isInOfficeRange (35.7, 51.4) 500\<rparr>)
     (sample_location 35.7009)) \<and>
   passed (checkSpeedAnomaly
     ((sample_env (sample_location 35.7009) \<lparr>getHours = 8, getMinutes = 5\<rparr> False)
        \<lparr>ANTI_SPOOFING := False,
         isInOfficeRange := GPSTracker_isInOfficeRange (35.7, 51.4) 500\<rparr>)
     (sample_location 35.7009)) \<and>
   passed (checkAltitudeAnomaly (sample_location 35.7009)) \<and>
   t_verified (verifyAttendanceTime
     ((sample_env (sample_location 35.7009) \<lparr>getHours = 8, getMinutes = 5\<rparr> False)
        \<lparr>ANTI_SPOOFING := False,
         isInOfficeRange := GPSTracker_isInOfficeRange (35.7, 51.4) 500\<rparr>) ''check_in'') \<and>
   getUserAttendance
     ((sample_env (sample_location 35.7009) \<lparr>getHours = 8, getMinutes = 5\<rparr> False)
        \<lparr>ANTI_SPOOFING := False,
         isInOfficeRange := GPSTracker_isInOfficeRange (35.7, 51.4) 500\<rparr>) 1 30 = Inr [] \<and>
   verifyAttendance
     ((sample_env (sample_location 35.7009) \<lparr>getHours = 8, getMinutes = 5\<rparr> False)
        \<lparr>ANTI_SPOOFING := False,
         isInOfficeRange := GPSTracker_isInOfficeRange (35.7, 51.4) 500\<rparr>) ''check_in'' =
     Inr \<lparr>verified = False, vmethod = manual, vlocation = None,
          vtimestamp = \<lparr>getHours = 8, getMinutes = 5\<rparr>,
          vmetadata = \<lparr>md_gps = None,
                       md_time = Some \<lparr>tm_currentTime = 485, tm_workStart = 480,
                                        tm_workEnd = 1020, tm_type = ''check_in''\<rparr>,
                       md_pattern = None,
                       verificationLevel = Some low\<rparr>\<rparr>"
  using sample_distance_near
  by (simp add: verifyAttendance_def verifyAttendance_try_def
        verifyAttendanceTime_def verifyAttendancePattern_def
        checkLocationConsistency_def checkSpeedAnomaly_def checkAltitudeAnomaly_def
        manualVerification_def getWorkStartTime_def getWorkEndTime_def minutesSinceMidnight_def
        js_le_def truthy_def sample_env_def sample_location_def Let_def)

text \<open>
  Claim C3, amended. With \<open>GPS.ANTI_SPOOFING\<close> enabled in the configuration: when the
  current location is valid and within the maximal distance of the office, all three spoofing
  checks pass, the current time is within the time window of the attendance type and the user
  has no attendance history, \<open>verifyAttendance\<close> returns a verdict that is verified and
  marked \<open>gps\<close>.
\<close>

theorem verifyAttendance_gps_verified:
  assumes "ANTI_SPOOFING e"
      and "getCurrentLocation e = Inr (Some loc)"
      and "latitude loc = Some lat" and "lat \<noteq> 0"
      and "longitude loc = Some lng" and "lng \<noteq> 0"
      and "isInOfficeRange e = GPSTracker_isInOfficeRange officeLocation maxDistance"
      and "great_circle_distance (fst officeLocation) (snd officeLocation) lat lng \<le> maxDistance"
      and "passed (checkLocationConsistency e loc)"
      and "passed (checkSpeedAnomaly e loc)"
      and "passed (checkAltitudeAnomaly loc)"
      and "t_verified (verifyAttendanceTime e ty)"
      and "currentUser e = Some uid" and "getUserAttendance e uid 30 = Inr []"
  shows "\<exists>v. verifyAttendance e ty = Inr v \<and> verified v \<and> vmethod v = gps \<and>
           verificationLevel (vmetadata v) = Some high"
proof -
  obtain r where r: "verifyGPSLocation e = Inr r"
    using verifyGPSLocation_total by blast
  have "isInOfficeRange e (latitude loc) (longitude loc)"
    using assms(3,5,7,8)
    by (simp add: GPSTracker_isInOfficeRange_def)
  then have g: "g_verified r"
    using verifyGPSLocation_verified [OF r] assms(2-6,9-11) by (auto simp add: truthy_def)
  obtain p where p: "verifyAttendancePattern e ty = Inr p"
    using assms(13,14) by (simp add: verifyAttendancePattern_def)
  from verifyAttendance_gps_accepted [OF assms(1) r g p] show ?thesis .
qed

theorem verifyAttendance_gps_verified_witness:
  "great_circle_distance 35.7 51.4 35.7009 51.4 \<le> 500 \<and>
   (\<exists>v. verifyAttendance
           ((sample_env (sample_location 35.7009) \<lparr>getHours = 8, getMinutes = 5\<rparr> False)
              \<lparr>isInOfficeRange := GPSTracker_isInOfficeRange (35.7, 51.4) 500\<rparr>) ''check_in'' = Inr v \<and>
         verified v \<and> vmethod v = gps \<and> verificationLevel (vmetadata v) = Some high)"
proof -
  let ?loc = "sample_location 35.7009"
  let ?e = "(sample_env ?loc \<lparr>getHours = 8, getMinutes = 5\<rparr> False)
              \<lparr>isInOfficeRange := GPSTracker_isInOfficeRange (35.7, 51.4) 500\<rparr>"
  have near: "great_circle_distance (fst (35.7, 51.4)) (snd (35.7, 51.4)) 35.7009 51.4 \<le> 500"
    using sample_distance_near by simp
  have a: "ANTI_SPOOFING ?e" by (simp add: sample_env_def)
  have loc: "getCurrentLocation ?e = Inr (Some ?loc)" by (simp add: sample_env_def)
  have lat: "latitude ?loc = Some 35.7009" and lat0: "(35.7009 :: real) \<noteq> 0"
    and lng: "longitude ?loc = Some 51.4" and lng0: "(51.4 :: real) \<noteq> 0"
    by (simp_all add: sample_location_def)
  have rng: "isInOfficeRange ?e = GPSTracker_isInOfficeRange (35.7, 51.4) 500" by simp
  have c1: "passed (checkLocationConsistency ?e ?loc)"
    by (simp add: checkLocationConsistency_def sample_env_def)
  have c2: "passed (checkSpeedAnomaly ?e ?loc)"
    by (simp add: checkSpeedAnomaly_def sample_env_def)
  have c3: "passed (checkAltitudeAnomaly ?loc)"
    by (simp add: checkAltitudeAnomaly_def sample_location_def truthy_def js_le_def)
  have t: "t_verified (verifyAttendanceTime ?e ''check_in'')"
    by (simp add: verifyAttendanceTime_def getWorkStartTime_def minutesSinceMidnight_def
          sample_env_def Let_def)
  have u: "currentUser ?e = Some 1" and h: "getUserAttendance ?e 1 30 = Inr []"
    by (simp_all add: sample_env_def)
  show ?thesis
    using verifyAttendance_gps_verified [OF a loc lat lat0 lng lng0 rng near c1 c2 c3 t u h] near
    by simp
qed

subsection \<open>The aggregation of the four checks\<close>

text \<open>
  Claim C1. The \<open>verified\<close> flag of the verdict of \<open>verifyAttendance\<close> is the conjunction of
  the GPS range test, the three spoofing checks, the time-window check and the pattern check;
  a failing time-window or pattern check vetoes a verified GPS step. The code does not do
  this: the conjunctions with the time and pattern outcomes are guarded by these same
  outcomes and never run on a failing check. The statement evaluates the code on a check-in at
  12:00 (time window failed) and on a check-in at 09:00 after three check-ins at 08:00
  (pattern failed): both verdicts are verified and marked \<open>gps\<close>.
\<close>

theorem verifyAttendance_veto_missing:
  "\<not> t_verified (verifyAttendanceTime
        (sample_env (sample_location 35.7009) \<lparr>getHours = 12, getMinutes = 0\<rparr> False) ''check_in'') \<and>
   (\<exists>v. verifyAttendance
           (sample_env (sample_location 35.7009) \<lparr>getHours = 12, getMinutes = 0\<rparr> False) ''check_in''
           = Inr v \<and>
         verified v \<and> vmethod v = gps \<and> verificationLevel (vmetadata v) = Some high) \<and>
   (\<exists>p. verifyAttendancePattern
           ((sample_env (sample_location 35.7009) \<lparr>getHours = 9, getMinutes = 0\<rparr> False)
              \<lparr>getUserAttendance := (\<lambda>uid days. Inr sample_history)\<rparr>) ''check_in'' = Inr p \<and>
         \<not> p_verified p) \<and>
   (\<exists>v. verifyAttendance
           ((sample_env (sample_location 35.7009) \<lparr>getHours = 9, getMinutes = 0\<rparr> False)
              \<lparr>getUserAttendance := (\<lambda>uid days. Inr sample_history)\<rparr>) ''check_in'' = Inr v \<and>
         verified v \<and> vmethod v = gps \<and> verificationLevel (vmetadata v) = Some high)"
proof -
  let ?h = "\<lambda>uid days. Inr sample_history :: error + attendance list"
  let ?e1 = "sample_env (sample_location 35.7009) \<lparr>getHours = 12, getMinutes = 0\<rparr> False"
  let ?e2 = "(sample_env (sample_location 35.7009) \<lparr>getHours = 9, getMinutes = 0\<rparr> False)
               \<lparr>getUserAttendance := ?h\<rparr>"
  have t1: "\<not> t_verified (verifyAttendanceTime ?e1 ''check_in'')"
    by (simp add: verifyAttendanceTime_def getWorkStartTime_def minutesSinceMidnight_def
          sample_env_def Let_def)
  obtain r1 where r1: "verifyGPSLocation ?e1 = Inr r1" "g_verified r1"
    using sample_gps_accepted by blast
  have a1: "ANTI_SPOOFING ?e1" by (simp add: sample_env_def)
  obtain p1 where p1: "verifyAttendancePattern ?e1 ''check_in'' = Inr p1"
    by (simp add: verifyAttendancePattern_def sample_env_def)
  note g1 = verifyAttendance_gps_accepted [OF a1 r1 p1]
  have u2: "currentUser ?e2 = Some 1" and h2: "getUserAttendance ?e2 1 30 = Inr sample_history"
    and i2: "integer_exact (js ?e2)"
    by (simp_all add: sample_env_def integer_exact_exact_engine)
  have s: "set (checkInTimes sample_history) = {480}"
    and l: "length (checkInTimes sample_history) \<le> 2 ^ 32"
    by (simp_all add: checkInTimes_sample_history)
  have c2: "minutesSinceMidnight (now ?e2) = 540"
    by (simp add: sample_env_def minutesSinceMidnight_def)
  from verifyAttendancePattern_identical [OF i2 u2 h2 s _ _ _ _ l, of "''check_in''"] c2
  obtain p2 where p2: "verifyAttendancePattern ?e2 ''check_in'' = Inr p2"
    and "p_verified p2 \<longleftrightarrow> minutesSinceMidnight (now ?e2) = 480" by auto
  then have n2: "\<not> p_verified p2" using c2 by simp
  obtain r2 where r2: "verifyGPSLocation ?e2 = Inr r2" "g_verified r2"
    using sample_gps_accepted_history by blast
  have a2: "ANTI_SPOOFING ?e2" by (simp add: sample_env_def)
  note g2 = verifyAttendance_gps_accepted [OF a2 r2 p2]
  show ?thesis using t1 g1 p2 n2 g2 by blast
qed

theorem verifyAttendance_veto_missing_witness:
  "\<exists>v. verifyAttendance
          (sample_env (sample_location 35.7009) \<lparr>getHours = 12, getMinutes = 0\<rparr> False) ''check_in''
          = Inr v \<and>
        verified v \<and> vmethod v = gps"
  using verifyAttendance_veto_missing by blast

end
